theory Spec2Isabelle
  imports Main "HOL-Library.Word"
begin

section \<open>Go values used by package safehttp\<close>

text \<open>
  Go's \<^verbatim>\<open>int64\<close> and \<^verbatim>\<open>uint64\<close> are 64-bit words (\<open>sint\<close> reads the first,
  \<open>unat\<close> the second); a Go \<^verbatim>\<open>string\<close> is a sequence of bytes, which is what
  \<open>string\<close> is here. Go's \<^verbatim>\<open>float64\<close> is not interpreted: it is the type variable
  \<open>'f\<close> wherever it occurs, and \<^verbatim>\<open>strconv.ParseFloat(x, 64)\<close> is the parameter
  \<open>ParseFloat\<close> of the functions that call it.
\<close>

type_synonym int64 = "64 word"
type_synonym uint64 = "64 word"

text \<open>
  A slice value: \<open>None\<close> is the \<^verbatim>\<open>nil\<close> slice, \<open>Some xs\<close> a non-nil slice holding
  \<open>xs\<close> (\<^verbatim>\<open>make([]T, 0, n)\<close> is \<open>Some []\<close>). Capacity is not observable by the
  functions below and is left out.
\<close>

type_synonym 'a slice = "'a list option"

text \<open>
  Error values. \<^verbatim>\<open>*strconv.NumError\<close> has the fields \<^verbatim>\<open>Func\<close>, \<^verbatim>\<open>Num\<close> and
  \<^verbatim>\<open>Err\<close>; the two \<^verbatim>\<open>fmt.Errorf\<close> calls of form.go are kept apart by a constructor
  each, holding the formatted argument (\<^verbatim>\<open>paramKey\<close> for \<^verbatim>\<open>%q\<close>, the dynamic type's
  name for \<^verbatim>\<open>%T\<close>). The slot \<^verbatim>\<open>f.err\<close> is an \<open>error option\<close>, \<open>None\<close> being
  \<^verbatim>\<open>nil\<close>.
\<close>

datatype num_err = ErrSyntax | ErrRange

datatype error =
    NumError string string num_err
  | ErrNotBoolean string
  | ErrTypeNotSupported string

text \<open>A run-time panic ends the call: indexing \<^verbatim>\<open>vals[0]\<close> on an empty slice.\<close>

datatype panic = IndexOutOfRange

definition index :: "'a list \<Rightarrow> nat \<Rightarrow> panic + 'a" where
  "index xs i = (if i < length xs then Inr (xs ! i) else Inl IndexOutOfRange)"

section \<open>strconv.ParseUint and strconv.ParseInt at base 10 and bit size 64\<close>

text \<open>
  The two integer parsers of Go's standard library, as form.go calls them
  (\<^verbatim>\<open>base = 10\<close>, \<^verbatim>\<open>bitSize = 64\<close>). Both return a value and an error, as in Go.
  With base 10 an underscore, a letter and any other byte that is not a decimal digit
  end the loop with a syntax error.
\<close>

definition syntaxError :: "string \<Rightarrow> string \<Rightarrow> error" where
  "syntaxError fn str = NumError fn str ErrSyntax"

definition rangeError :: "string \<Rightarrow> string \<Rightarrow> error" where
  "rangeError fn str = NumError fn str ErrRange"

definition maxUint64 :: uint64 where
  "maxUint64 = - 1"

definition is_digit :: "char \<Rightarrow> bool" where
  "is_digit c = (48 \<le> (of_char c :: nat) \<and> (of_char c :: nat) \<le> 57)"

definition digit_val :: "char \<Rightarrow> uint64" where
  "digit_val c = of_nat (of_char c - 48)"

text \<open>
  The loop of \<^verbatim>\<open>ParseUint\<close> over the bytes of \<open>s\<close>, with \<open>n\<close> the value so far and
  \<open>s0\<close> the whole input for the error.
\<close>

fun ParseUint_loop :: "string \<Rightarrow> string \<Rightarrow> uint64 \<Rightarrow> uint64 \<times> error option" where
  "ParseUint_loop s0 [] n = (n, None)"
| "ParseUint_loop s0 (c # cs) n =
     (if \<not> is_digit c then (0, Some (syntaxError ''ParseUint'' s0))
      else if n \<ge> maxUint64 div 10 + 1 then (maxUint64, Some (rangeError ''ParseUint'' s0))
      else
        (let n' = n * 10; n1 = n' + digit_val c
         in if n1 < n' then (maxUint64, Some (rangeError ''ParseUint'' s0))
            else ParseUint_loop s0 cs n1))"

definition ParseUint :: "string \<Rightarrow> uint64 \<times> error option" where
  "ParseUint s =
     (if s = [] then (0, Some (syntaxError ''ParseUint'' s))
      else ParseUint_loop s s 0)"

definition is_ErrRange :: "error option \<Rightarrow> bool" where
  "is_ErrRange e = (case e of Some (NumError _ _ ErrRange) \<Rightarrow> True | _ \<Rightarrow> False)"

definition ParseInt :: "string \<Rightarrow> int64 \<times> error option" where
  "ParseInt s =
     (if s = [] then (0, Some (syntaxError ''ParseInt'' s))
      else
        (let s0 = s;
             neg = (hd s = CHR ''-'');
             s' = (if hd s = CHR ''+'' \<or> hd s = CHR ''-'' then tl s else s);
             (un, err) = ParseUint s';
             cutoff = (push_bit 63 1 :: uint64)
         in if err \<noteq> None \<and> \<not> is_ErrRange err then (0, Some (syntaxError ''ParseInt'' s0))
            else if \<not> neg \<and> un \<ge> cutoff then (cutoff - 1, Some (rangeError ''ParseInt'' s0))
            else if neg \<and> un > cutoff then (- cutoff, Some (rangeError ''ParseInt'' s0))
            else (if neg then - un else un, None)))"

section \<open>form.go: the Form and its scalar getters\<close>

record Form =
  "values" :: "string \<rightharpoonup> string list"
  err :: "error option"

text \<open>
  A getter mutates \<^verbatim>\<open>f.err\<close> through its pointer receiver: the model returns the
  result together with the Form after the call, or the panic that ended the call.
\<close>

definition Int64 :: "Form \<Rightarrow> string \<Rightarrow> int64 \<Rightarrow> panic + (int64 \<times> Form)" where
  "Int64 f paramKey defaultValue =
     (case values f paramKey of
        None \<Rightarrow> Inr (defaultValue, f)
      | Some vals \<Rightarrow>
          (case index vals 0 of
             Inl p \<Rightarrow> Inl p
           | Inr v \<Rightarrow>
               (case ParseInt v of
                  (paramVal, Some e) \<Rightarrow> Inr (defaultValue, f\<lparr>err := Some e\<rparr>)
                | (paramVal, None) \<Rightarrow> Inr (paramVal, f))))"

definition Uint64 :: "Form \<Rightarrow> string \<Rightarrow> uint64 \<Rightarrow> panic + (uint64 \<times> Form)" where
  "Uint64 f paramKey defaultValue =
     (case values f paramKey of
        None \<Rightarrow> Inr (defaultValue, f)
      | Some vals \<Rightarrow>
          (case index vals 0 of
             Inl p \<Rightarrow> Inl p
           | Inr v \<Rightarrow>
               (case ParseUint v of
                  (paramVal, Some e) \<Rightarrow> Inr (defaultValue, f\<lparr>err := Some e\<rparr>)
                | (paramVal, None) \<Rightarrow> Inr (paramVal, f))))"

definition String :: "Form \<Rightarrow> string \<Rightarrow> string \<Rightarrow> panic + (string \<times> Form)" where
  "String f paramKey defaultValue =
     (case values f paramKey of
        None \<Rightarrow> Inr (defaultValue, f)
      | Some vals \<Rightarrow>
          (case index vals 0 of
             Inl p \<Rightarrow> Inl p
           | Inr v \<Rightarrow> Inr (v, f)))"

definition Float64 ::
  "(string \<Rightarrow> 'f \<times> error option) \<Rightarrow> Form \<Rightarrow> string \<Rightarrow> 'f \<Rightarrow> panic + ('f \<times> Form)" where
  "Float64 ParseFloat f paramKey defaultValue =
     (case values f paramKey of
        None \<Rightarrow> Inr (defaultValue, f)
      | Some vals \<Rightarrow>
          (case index vals 0 of
             Inl p \<Rightarrow> Inl p
           | Inr v \<Rightarrow>
               (case ParseFloat v of
                  (paramVal, Some e) \<Rightarrow> Inr (defaultValue, f\<lparr>err := Some e\<rparr>)
                | (paramVal, None) \<Rightarrow> Inr (paramVal, f))))"

text \<open>
  \<^verbatim>\<open>Bool\<close> switches on the first value; its default branch assigns the error and
  falls out of the switch to the final \<^verbatim>\<open>return false\<close>.
\<close>

definition Bool :: "Form \<Rightarrow> string \<Rightarrow> bool \<Rightarrow> panic + (bool \<times> Form)" where
  "Bool f paramKey defaultValue =
     (case values f paramKey of
        None \<Rightarrow> Inr (defaultValue, f)
      | Some vals \<Rightarrow>
          (case index vals 0 of
             Inl p \<Rightarrow> Inl p
           | Inr v \<Rightarrow>
               (if v = ''true'' then Inr (True, f)
                else if v = ''false'' then Inr (False, f)
                else Inr (False, f\<lparr>err := Some (ErrNotBoolean paramKey)\<rparr>))))"

definition Err :: "Form \<Rightarrow> error option" where
  "Err f = err f"

section \<open>form.go: clearSlice and Slice\<close>

text \<open>
  The argument \<^verbatim>\<open>slicePtr interface{}\<close> by its dynamic type: one constructor for each
  pointer type of the two type switches, holding the slice variable the pointer refers
  to (nil pointers are not modelled), and \<open>PtrOther\<close> for a value of any other dynamic
  type, holding the name \<^verbatim>\<open>%T\<close> prints and the value itself.
\<close>

datatype ('f, 'o) slicePtr =
    PtrString "string slice"
  | PtrInt64 "int64 slice"
  | PtrFloat64 "'f slice"
  | PtrUint64 "uint64 slice"
  | PtrBool "bool slice"
  | PtrOther string 'o

text \<open>\<^verbatim>\<open>clearSlice\<close> returns the destination after the call and the error.\<close>

fun clearSlice :: "('f, 'o) slicePtr \<Rightarrow> ('f, 'o) slicePtr \<times> error option" where
  "clearSlice (PtrString vs) = (PtrString None, None)"
| "clearSlice (PtrInt64 vs) = (PtrInt64 None, None)"
| "clearSlice (PtrFloat64 vs) = (PtrFloat64 None, None)"
| "clearSlice (PtrUint64 vs) = (PtrUint64 None, None)"
| "clearSlice (PtrBool vs) = (PtrBool None, None)"
| "clearSlice (PtrOther tn v) = (PtrOther tn v, Some (ErrTypeNotSupported tn))"

text \<open>
  The loops \<^verbatim>\<open>for _, x := range mapVals\<close> of \<^verbatim>\<open>Slice\<close>, with \<open>res\<close> the slice built
  so far. \<open>Inl e\<close> is the early return of the loop body with the error it assigns to
  \<^verbatim>\<open>f.err\<close>. The loops for \<^verbatim>\<open>*[]int64\<close>, \<^verbatim>\<open>*[]uint64\<close> and \<^verbatim>\<open>*[]float64\<close> differ
  in the parser only, which is the argument \<open>parse\<close>.
\<close>

fun string_loop :: "string list \<Rightarrow> string list \<Rightarrow> string list" where
  "string_loop [] res = res"
| "string_loop (x # xs) res = string_loop xs (res @ [x])"

fun parse_loop ::
  "(string \<Rightarrow> 'a \<times> error option) \<Rightarrow> string list \<Rightarrow> 'a list \<Rightarrow> error + 'a list" where
  "parse_loop parse [] res = Inr res"
| "parse_loop parse (x # xs) res =
     (case parse x of
        (v, Some e) \<Rightarrow> Inl e
      | (v, None) \<Rightarrow> parse_loop parse xs (res @ [v]))"

fun bool_loop :: "string \<Rightarrow> string list \<Rightarrow> bool list \<Rightarrow> error + bool list" where
  "bool_loop paramKey [] res = Inr res"
| "bool_loop paramKey (x # xs) res =
     (if x = ''true'' then bool_loop paramKey xs (res @ [True])
      else if x = ''false'' then bool_loop paramKey xs (res @ [False])
      else Inl (ErrNotBoolean paramKey))"

definition Slice ::
  "(string \<Rightarrow> 'f \<times> error option) \<Rightarrow> Form \<Rightarrow> ('f, 'o) slicePtr \<Rightarrow> string
     \<Rightarrow> ('f, 'o) slicePtr \<times> Form" where
  "Slice ParseFloat f slicePtr paramKey =
     (case values f paramKey of
        None \<Rightarrow> (let (p, e) = clearSlice slicePtr in (p, f\<lparr>err := e\<rparr>))
      | Some mapVals \<Rightarrow>
          (case slicePtr of
             PtrString _ \<Rightarrow> (PtrString (Some (string_loop mapVals [])), f)
           | PtrInt64 _ \<Rightarrow>
               (case parse_loop ParseInt mapVals [] of
                  Inl e \<Rightarrow> (PtrInt64 None, f\<lparr>err := Some e\<rparr>)
                | Inr res \<Rightarrow> (PtrInt64 (Some res), f))
           | PtrUint64 _ \<Rightarrow>
               (case parse_loop ParseUint mapVals [] of
                  Inl e \<Rightarrow> (PtrUint64 None, f\<lparr>err := Some e\<rparr>)
                | Inr res \<Rightarrow> (PtrUint64 (Some res), f))
           | PtrFloat64 _ \<Rightarrow>
               (case parse_loop ParseFloat mapVals [] of
                  Inl e \<Rightarrow> (PtrFloat64 None, f\<lparr>err := Some e\<rparr>)
                | Inr res \<Rightarrow> (PtrFloat64 (Some res), f))
           | PtrBool _ \<Rightarrow>
               (case bool_loop paramKey mapVals [] of
                  Inl e \<Rightarrow> (PtrBool None, f\<lparr>err := Some e\<rparr>)
                | Inr res \<Rightarrow> (PtrBool (Some res), f))
           | PtrOther _ _ \<Rightarrow> (let (p, e) = clearSlice slicePtr in (p, f\<lparr>err := e\<rparr>))))"

section \<open>Sequences of getter calls\<close>

text \<open>
  A handler calls the getters one after the other on the same Form. A call is a getter
  with its arguments; \<open>exec\<close> runs it and keeps the Form, and \<open>run\<close> runs a sequence
  from left to right, a panic ending it.
\<close>

datatype ('f, 'o) call =
    CallInt64 string int64
  | CallUint64 string uint64
  | CallString string string
  | CallFloat64 string 'f
  | CallBool string bool
  | CallSlice "('f, 'o) slicePtr" string

fun exec :: "(string \<Rightarrow> 'f \<times> error option) \<Rightarrow> ('f, 'o) call \<Rightarrow> Form \<Rightarrow> panic + Form" where
  "exec ParseFloat (CallInt64 k d) f = map_sum id snd (Int64 f k d)"
| "exec ParseFloat (CallUint64 k d) f = map_sum id snd (Uint64 f k d)"
| "exec ParseFloat (CallString k d) f = map_sum id snd (String f k d)"
| "exec ParseFloat (CallFloat64 k d) f = map_sum id snd (Float64 ParseFloat f k d)"
| "exec ParseFloat (CallBool k d) f = map_sum id snd (Bool f k d)"
| "exec ParseFloat (CallSlice p k) f = Inr (snd (Slice ParseFloat f p k))"

fun run :: "(string \<Rightarrow> 'f \<times> error option) \<Rightarrow> ('f, 'o) call list \<Rightarrow> Form \<Rightarrow> panic + Form" where
  "run ParseFloat [] f = Inr f"
| "run ParseFloat (c # cs) f =
     (case exec ParseFloat c f of
        Inl p \<Rightarrow> Inl p
      | Inr f' \<Rightarrow> run ParseFloat cs f')"

section \<open>The status codes\<close>

text \<open>
  \<^verbatim>\<open>type StatusCode int\<close> and the constants of its \<^verbatim>\<open>const\<close> block, in the order of
  the source; \<open>StatusCode_consts\<close> is the block as a list.
\<close>

type_synonym StatusCode = int

definition StatusOK :: StatusCode where
  "StatusOK = 200"

definition StatusMovedPermanently :: StatusCode where
  "StatusMovedPermanently = 301"

definition StatusBadRequest :: StatusCode where
  "StatusBadRequest = 400"

definition StatusUnauthorized :: StatusCode where
  "StatusUnauthorized = 401"

definition StatusForbidden :: StatusCode where
  "StatusForbidden = 403"

definition StatusInternalServerError :: StatusCode where
  "StatusInternalServerError = 500"

definition StatusCode_consts :: "(string \<times> StatusCode) list" where
  "StatusCode_consts =
     [(''StatusOK'', StatusOK),
      (''StatusMovedPermanently'', StatusMovedPermanently),
      (''StatusBadRequest'', StatusBadRequest),
      (''StatusUnauthorized'', StatusUnauthorized),
      (''StatusForbidden'', StatusForbidden),
      (''StatusInternalServerError'', StatusInternalServerError)]"

section \<open>Auxiliary facts about indexing and the loops\<close>

lemma index_Nil: "index [] 0 = Inl IndexOutOfRange"
  by (simp add: index_def)

lemma index_Cons_0: "index (v # vs) 0 = Inr v"
  by (simp add: index_def)

lemma string_loop_append: "string_loop xs res = res @ xs"
  by (induction xs arbitrary: res) simp_all

text \<open>
  A parsing loop returns early with the error of the first value whose parse fails, and
  otherwise appends every parsed value in order.
\<close>

lemma parse_loop_find:
  "parse_loop parse xs res =
     (case find (\<lambda>y. snd (parse y) \<noteq> None) xs of
        Some x \<Rightarrow> Inl (the (snd (parse x)))
      | None \<Rightarrow> Inr (res @ map (\<lambda>y. fst (parse y)) xs))"
proof (induction xs arbitrary: res)
  case Nil
  show ?case by simp
next
  case (Cons x xs)
  obtain v e where px: "parse x = (v, e)" by (cases "parse x")
  show ?case
  proof (cases e)
    case None
    with px Cons.IH [of "res @ [v]"] show ?thesis
      by (simp split: option.splits)
  next
    case (Some a)
    with px show ?thesis by simp
  qed
qed

lemma bool_loop_find:
  "bool_loop k xs res =
     (case find (\<lambda>y. y \<noteq> ''true'' \<and> y \<noteq> ''false'') xs of
        Some x \<Rightarrow> Inl (ErrNotBoolean k)
      | None \<Rightarrow> Inr (res @ map (\<lambda>y. y = ''true'') xs))"
proof (induction xs arbitrary: res)
  case Nil
  show ?case by simp
next
  case (Cons x xs)
  consider "x = ''true''" | "x = ''false''" | "x \<noteq> ''true''" "x \<noteq> ''false''"
    by blast
  then show ?case
  proof cases
    case 1
    with Cons.IH [of "res @ [True]"] show ?thesis by (simp split: option.splits)
  next
    case 2
    with Cons.IH [of "res @ [False]"] show ?thesis by (simp split: option.splits)
  next
    case 3
    then show ?thesis by simp
  qed
qed

lemma find_first_failure:
  "find (\<lambda>y. snd (parse y) \<noteq> None) xs = Some x \<Longrightarrow> snd (parse x) \<noteq> None"
  by (auto simp: find_Some_iff)

text \<open>\<open>find\<close> returns the first element that satisfies the test, when there is one.\<close>

lemma find_Some_ex: "(\<exists>x. find P xs = Some x) \<longleftrightarrow> (\<exists>y\<in>set xs. P y)"
  using find_None_iff [of P xs] by (cases "find P xs") auto

lemma find_no_failure:
  "\<forall>y\<in>set xs. snd (parse y) = None \<Longrightarrow> find (\<lambda>y. snd (parse y) \<noteq> None) xs = None"
  by (simp add: find_None_iff)

section \<open>The examples of the specification\<close>

lemma example_Int64_42:
  "Int64 \<lparr>values = [''n'' \<mapsto> [''42'']], err = None\<rparr> ''n'' 0
     = Inr (42, \<lparr>values = [''n'' \<mapsto> [''42'']], err = None\<rparr>)"
proof -
  have "ParseInt ''42'' = (42, None)" by code_simp
  then show ?thesis by (simp add: Int64_def index_def)
qed

lemma example_Int64_abc:
  "Int64 \<lparr>values = [''n'' \<mapsto> [''abc'']], err = None\<rparr> ''n'' 7
     = Inr (7, \<lparr>values = [''n'' \<mapsto> [''abc'']],
                err = Some (NumError ''ParseInt'' ''abc'' ErrSyntax)\<rparr>)"
proof -
  have "ParseInt ''abc'' = (0, Some (NumError ''ParseInt'' ''abc'' ErrSyntax))" by code_simp
  then show ?thesis by (simp add: Int64_def index_def)
qed

section \<open>Scalar getters on a first value that does not parse\<close>

lemma Int64_parse_failure:
  "values f k = Some (v # vs) \<Longrightarrow> snd (ParseInt v) = Some e \<Longrightarrow>
     Int64 f k d = Inr (d, f\<lparr>err := Some e\<rparr>)"
  by (cases "ParseInt v") (simp add: Int64_def index_Cons_0)

lemma Uint64_parse_failure:
  "values f k = Some (v # vs) \<Longrightarrow> snd (ParseUint v) = Some e \<Longrightarrow>
     Uint64 f k d = Inr (d, f\<lparr>err := Some e\<rparr>)"
  by (cases "ParseUint v") (simp add: Uint64_def index_Cons_0)

lemma Float64_parse_failure:
  "values f k = Some (v # vs) \<Longrightarrow> snd (ParseFloat v) = Some e \<Longrightarrow>
     Float64 ParseFloat f k d = Inr (d, f\<lparr>err := Some e\<rparr>)"
  by (cases "ParseFloat v") (simp add: Float64_def index_Cons_0)

lemma Bool_parse_failure:
  "values f k = Some (v # vs) \<Longrightarrow> v \<noteq> ''true'' \<Longrightarrow> v \<noteq> ''false'' \<Longrightarrow>
     Bool f k d = Inr (False, f\<lparr>err := Some (ErrNotBoolean k)\<rparr>)"
  by (simp add: Bool_def index_Cons_0)

text \<open>
  C1. The claim: when the first value of a present key does not parse, each of
  \<^verbatim>\<open>Int64\<close>, \<^verbatim>\<open>Uint64\<close>, \<^verbatim>\<open>Float64\<close> and \<^verbatim>\<open>Bool\<close> records a conversion error and
  returns the supplied default, \<^verbatim>\<open>Bool\<close> whatever its default is. The three numeric
  getters do (the lemmas above). \<^verbatim>\<open>Bool\<close> records the error and returns \<^verbatim>\<open>false\<close>,
  not its default: with the key \<^verbatim>\<open>b\<close> bound to \<^verbatim>\<open>["maybe"]\<close> and the default
  \<^verbatim>\<open>true\<close>, the call \<^verbatim>\<open>Bool("b", true)\<close> returns \<^verbatim>\<open>false\<close>.
\<close>

theorem Bool_invalid_token_drops_default:
  "Bool \<lparr>values = [''b'' \<mapsto> [''maybe'']], err = None\<rparr> ''b'' True =
     Inr (False, \<lparr>values = [''b'' \<mapsto> [''maybe'']], err = Some (ErrNotBoolean ''b'')\<rparr>)"
  by (simp add: Bool_def index_def)

section \<open>Absent keys\<close>

text \<open>
  C2. For a key absent from the values map, each scalar getter (\<^verbatim>\<open>Int64\<close>,
  \<^verbatim>\<open>Uint64\<close>, \<^verbatim>\<open>Float64\<close>, \<^verbatim>\<open>String\<close>, \<^verbatim>\<open>Bool\<close>) returns exactly the supplied
  default and the Form after the call is the Form before it: the error slot is not
  touched, so a clear slot stays clear.
\<close>

theorem absent_key_returns_default:
  "values f paramKey = None \<Longrightarrow>
     Int64 f paramKey d1 = Inr (d1, f) \<and>
     Uint64 f paramKey d2 = Inr (d2, f) \<and>
     Float64 ParseFloat f paramKey d3 = Inr (d3, f) \<and>
     String f paramKey d4 = Inr (d4, f) \<and>
     Bool f paramKey d5 = Inr (d5, f)"
  by (simp add: Int64_def Uint64_def Float64_def String_def Bool_def)

theorem absent_key_returns_default_witness:
  "values \<lparr>values = [''n'' \<mapsto> [''42'']], err = None\<rparr> ''missing'' = None \<and>
   Int64 \<lparr>values = [''n'' \<mapsto> [''42'']], err = None\<rparr> ''missing'' 7
     = Inr (7, \<lparr>values = [''n'' \<mapsto> [''42'']], err = None\<rparr>) \<and>
   Uint64 \<lparr>values = [''n'' \<mapsto> [''42'']], err = None\<rparr> ''missing'' 8
     = Inr (8, \<lparr>values = [''n'' \<mapsto> [''42'']], err = None\<rparr>) \<and>
   Float64 ParseInt \<lparr>values = [''n'' \<mapsto> [''42'']], err = None\<rparr> ''missing'' 9
     = Inr (9, \<lparr>values = [''n'' \<mapsto> [''42'']], err = None\<rparr>) \<and>
   String \<lparr>values = [''n'' \<mapsto> [''42'']], err = None\<rparr> ''missing'' ''dflt''
     = Inr (''dflt'', \<lparr>values = [''n'' \<mapsto> [''42'']], err = None\<rparr>) \<and>
   Bool \<lparr>values = [''n'' \<mapsto> [''42'']], err = None\<rparr> ''missing'' True
     = Inr (True, \<lparr>values = [''n'' \<mapsto> [''42'']], err = None\<rparr>) \<and>
   Err \<lparr>values = [''n'' \<mapsto> [''42'']], err = None\<rparr> = None"
proof -
  have h: "values \<lparr>values = [''n'' \<mapsto> [''42'']], err = None\<rparr> ''missing'' = None"
    by simp
  show ?thesis
    using h absent_key_returns_default [OF h, of 7 8 ParseInt 9 "''dflt''" True]
    by (simp add: Err_def)
qed

section \<open>Slice on a present key\<close>

text \<open>
  C3. For a present key and each of the destinations \<^verbatim>\<open>*[]int64\<close>, \<^verbatim>\<open>*[]uint64\<close>,
  \<^verbatim>\<open>*[]float64\<close> and \<^verbatim>\<open>*[]bool\<close>: if some value of the list fails to convert, with
  \<open>x\<close> the first such value (\<open>find\<close> returns it exactly when there is one), then
  \<^verbatim>\<open>Slice\<close> leaves the destination \<^verbatim>\<open>nil\<close>, whatever it held and however many values
  before \<open>x\<close> converted, and the error slot holds the error of \<open>x\<close>: the loop stopped
  there, the values after \<open>x\<close> play no part.
\<close>

theorem Slice_first_failure_clears:
  "values f paramKey = Some mapVals \<Longrightarrow>
     (find (\<lambda>y. snd (ParseInt y) \<noteq> None) mapVals = Some x1 \<longrightarrow>
        Slice ParseFloat f (PtrInt64 d1 :: ('f, 'o) slicePtr) paramKey
          = (PtrInt64 None, f\<lparr>err := snd (ParseInt x1)\<rparr>)) \<and>
     (find (\<lambda>y. snd (ParseUint y) \<noteq> None) mapVals = Some x2 \<longrightarrow>
        Slice ParseFloat f (PtrUint64 d2 :: ('f, 'o) slicePtr) paramKey
          = (PtrUint64 None, f\<lparr>err := snd (ParseUint x2)\<rparr>)) \<and>
     (find (\<lambda>y. snd (ParseFloat y) \<noteq> None) mapVals = Some x3 \<longrightarrow>
        Slice ParseFloat f (PtrFloat64 d3 :: ('f, 'o) slicePtr) paramKey
          = (PtrFloat64 None, f\<lparr>err := snd (ParseFloat x3)\<rparr>)) \<and>
     (find (\<lambda>y. y \<noteq> ''true'' \<and> y \<noteq> ''false'') mapVals = Some x4 \<longrightarrow>
        Slice ParseFloat f (PtrBool d4 :: ('f, 'o) slicePtr) paramKey
          = (PtrBool None, f\<lparr>err := Some (ErrNotBoolean paramKey)\<rparr>))"
proof -
  assume present: "values f paramKey = Some mapVals"
  have c1: "Slice ParseFloat f (PtrInt64 d1 :: ('f, 'o) slicePtr) paramKey
          = (PtrInt64 None, f\<lparr>err := snd (ParseInt x1)\<rparr>)"
    if "find (\<lambda>y. snd (ParseInt y) \<noteq> None) mapVals = Some x1"
    using present that find_first_failure [OF that]
    by (auto simp: Slice_def parse_loop_find)
  have c2: "Slice ParseFloat f (PtrUint64 d2 :: ('f, 'o) slicePtr) paramKey
          = (PtrUint64 None, f\<lparr>err := snd (ParseUint x2)\<rparr>)"
    if "find (\<lambda>y. snd (ParseUint y) \<noteq> None) mapVals = Some x2"
    using present that find_first_failure [OF that]
    by (auto simp: Slice_def parse_loop_find)
  have c3: "Slice ParseFloat f (PtrFloat64 d3 :: ('f, 'o) slicePtr) paramKey
          = (PtrFloat64 None, f\<lparr>err := snd (ParseFloat x3)\<rparr>)"
    if "find (\<lambda>y. snd (ParseFloat y) \<noteq> None) mapVals = Some x3"
    using present that find_first_failure [OF that]
    by (auto simp: Slice_def parse_loop_find)
  have c4: "Slice ParseFloat f (PtrBool d4 :: ('f, 'o) slicePtr) paramKey
          = (PtrBool None, f\<lparr>err := Some (ErrNotBoolean paramKey)\<rparr>)"
    if "find (\<lambda>y. y \<noteq> ''true'' \<and> y \<noteq> ''false'') mapVals = Some x4"
    using present that by (simp add: Slice_def bool_loop_find)
  from c1 c2 c3 c4 show ?thesis by blast
qed

text \<open>
  The example of the specification, with one more failing value after the first: the key
  \<^verbatim>\<open>xs\<close> bound to \<^verbatim>\<open>["1", "2", "x", "y"]\<close>. The witness takes \<^verbatim>\<open>ParseInt\<close> for the
  float parser.
\<close>

theorem Slice_first_failure_clears_witness:
  "values \<lparr>values = [''xs'' \<mapsto> [''1'', ''2'', ''x'', ''y'']], err = None\<rparr> ''xs''
     = Some [''1'', ''2'', ''x'', ''y''] \<and>
   Slice ParseInt \<lparr>values = [''xs'' \<mapsto> [''1'', ''2'', ''x'', ''y'']], err = None\<rparr>
       (PtrInt64 (Some [5]) :: (int64, unit) slicePtr) ''xs''
     = (PtrInt64 None, \<lparr>values = [''xs'' \<mapsto> [''1'', ''2'', ''x'', ''y'']],
          err = Some (NumError ''ParseInt'' ''x'' ErrSyntax)\<rparr>) \<and>
   Slice ParseInt \<lparr>values = [''xs'' \<mapsto> [''1'', ''2'', ''x'', ''y'']], err = None\<rparr>
       (PtrUint64 (Some [5]) :: (int64, unit) slicePtr) ''xs''
     = (PtrUint64 None, \<lparr>values = [''xs'' \<mapsto> [''1'', ''2'', ''x'', ''y'']],
          err = Some (NumError ''ParseUint'' ''x'' ErrSyntax)\<rparr>) \<and>
   Slice ParseInt \<lparr>values = [''xs'' \<mapsto> [''1'', ''2'', ''x'', ''y'']], err = None\<rparr>
       (PtrFloat64 (Some [5]) :: (int64, unit) slicePtr) ''xs''
     = (PtrFloat64 None, \<lparr>values = [''xs'' \<mapsto> [''1'', ''2'', ''x'', ''y'']],
          err = Some (NumError ''ParseInt'' ''x'' ErrSyntax)\<rparr>) \<and>
   Slice ParseInt \<lparr>values = [''xs'' \<mapsto> [''1'', ''2'', ''x'', ''y'']], err = None\<rparr>
       (PtrBool (Some [True]) :: (int64, unit) slicePtr) ''xs''
     = (PtrBool None, \<lparr>values = [''xs'' \<mapsto> [''1'', ''2'', ''x'', ''y'']],
          err = Some (ErrNotBoolean ''xs'')\<rparr>)"
proof -
  have present:
    "values \<lparr>values = [''xs'' \<mapsto> [''1'', ''2'', ''x'', ''y'']], err = None\<rparr> ''xs''
       = Some [''1'', ''2'', ''x'', ''y'']"
    by simp
  have i: "find (\<lambda>y. snd (ParseInt y) \<noteq> None) [''1'', ''2'', ''x'', ''y''] = Some ''x''"
    by code_simp
  have u: "find (\<lambda>y. snd (ParseUint y) \<noteq> None) [''1'', ''2'', ''x'', ''y''] = Some ''x''"
    by code_simp
  have b: "find (\<lambda>y. y \<noteq> ''true'' \<and> y \<noteq> ''false'') [''1'', ''2'', ''x'', ''y''] = Some ''1''"
    by simp
  have ei: "snd (ParseInt ''x'') = Some (NumError ''ParseInt'' ''x'' ErrSyntax)"
    by code_simp
  have eu: "snd (ParseUint ''x'') = Some (NumError ''ParseUint'' ''x'' ErrSyntax)"
    by code_simp
  show ?thesis
    using present i u b ei eu
      Slice_first_failure_clears [where ?'f = int64 and ?'o = unit, OF present,
        of "''x''" ParseInt "Some [5]" "''x''" "Some [5]" "''x''" "Some [5]" "''1''" "Some [True]"]
    by simp
qed

text \<open>
  C4. For a present key and each of the destinations \<^verbatim>\<open>*[]string\<close>, \<^verbatim>\<open>*[]int64\<close>,
  \<^verbatim>\<open>*[]uint64\<close>, \<^verbatim>\<open>*[]float64\<close> and \<^verbatim>\<open>*[]bool\<close>: if every value of the list converts
  (a string always does), \<^verbatim>\<open>Slice\<close> sets the destination to the converted values in
  the order of the list, and the Form after the call is the Form before it.
\<close>

theorem Slice_all_convert:
  "values f paramKey = Some mapVals \<Longrightarrow>
     Slice ParseFloat f (PtrString d0 :: ('f, 'o) slicePtr) paramKey
       = (PtrString (Some mapVals), f) \<and>
     ((\<forall>y\<in>set mapVals. snd (ParseInt y) = None) \<longrightarrow>
        Slice ParseFloat f (PtrInt64 d1 :: ('f, 'o) slicePtr) paramKey
          = (PtrInt64 (Some (map (\<lambda>y. fst (ParseInt y)) mapVals)), f)) \<and>
     ((\<forall>y\<in>set mapVals. snd (ParseUint y) = None) \<longrightarrow>
        Slice ParseFloat f (PtrUint64 d2 :: ('f, 'o) slicePtr) paramKey
          = (PtrUint64 (Some (map (\<lambda>y. fst (ParseUint y)) mapVals)), f)) \<and>
     ((\<forall>y\<in>set mapVals. snd (ParseFloat y) = None) \<longrightarrow>
        Slice ParseFloat f (PtrFloat64 d3 :: ('f, 'o) slicePtr) paramKey
          = (PtrFloat64 (Some (map (\<lambda>y. fst (ParseFloat y)) mapVals)), f)) \<and>
     ((\<forall>y\<in>set mapVals. y = ''true'' \<or> y = ''false'') \<longrightarrow>
        Slice ParseFloat f (PtrBool d4 :: ('f, 'o) slicePtr) paramKey
          = (PtrBool (Some (map (\<lambda>y. y = ''true'') mapVals)), f))"
proof -
  assume present: "values f paramKey = Some mapVals"
  have c0: "Slice ParseFloat f (PtrString d0 :: ('f, 'o) slicePtr) paramKey
          = (PtrString (Some mapVals), f)"
    using present by (simp add: Slice_def string_loop_append)
  have c1: "Slice ParseFloat f (PtrInt64 d1 :: ('f, 'o) slicePtr) paramKey
          = (PtrInt64 (Some (map (\<lambda>y. fst (ParseInt y)) mapVals)), f)"
    if "\<forall>y\<in>set mapVals. snd (ParseInt y) = None"
    using present find_no_failure [OF that] by (simp add: Slice_def parse_loop_find)
  have c2: "Slice ParseFloat f (PtrUint64 d2 :: ('f, 'o) slicePtr) paramKey
          = (PtrUint64 (Some (map (\<lambda>y. fst (ParseUint y)) mapVals)), f)"
    if "\<forall>y\<in>set mapVals. snd (ParseUint y) = None"
    using present find_no_failure [OF that] by (simp add: Slice_def parse_loop_find)
  have c3: "Slice ParseFloat f (PtrFloat64 d3 :: ('f, 'o) slicePtr) paramKey
          = (PtrFloat64 (Some (map (\<lambda>y. fst (ParseFloat y)) mapVals)), f)"
    if "\<forall>y\<in>set mapVals. snd (ParseFloat y) = None"
    using present find_no_failure [OF that] by (simp add: Slice_def parse_loop_find)
  have "find (\<lambda>y. y \<noteq> ''true'' \<and> y \<noteq> ''false'') mapVals = None"
    if "\<forall>y\<in>set mapVals. y = ''true'' \<or> y = ''false''"
    using that by (auto simp: find_None_iff)
  then have c4: "Slice ParseFloat f (PtrBool d4 :: ('f, 'o) slicePtr) paramKey
          = (PtrBool (Some (map (\<lambda>y. y = ''true'') mapVals)), f)"
    if "\<forall>y\<in>set mapVals. y = ''true'' \<or> y = ''false''"
    using present that by (simp add: Slice_def bool_loop_find)
  from c0 c1 c2 c3 c4 show ?thesis by blast
qed

text \<open>
  The key \<^verbatim>\<open>xs\<close> for the string and the numeric destinations, the key \<^verbatim>\<open>bs\<close> for the
  boolean one; an error recorded earlier stays in the slot.
\<close>

theorem Slice_all_convert_witness:
  "values \<lparr>values = [''xs'' \<mapsto> [''3'', ''1'', ''2''], ''bs'' \<mapsto> [''true'', ''false'', ''true'']],
      err = Some (ErrNotBoolean ''q'')\<rparr> ''xs'' = Some [''3'', ''1'', ''2''] \<and>
   Slice ParseInt \<lparr>values = [''xs'' \<mapsto> [''3'', ''1'', ''2''], ''bs'' \<mapsto> [''true'', ''false'', ''true'']],
       err = Some (ErrNotBoolean ''q'')\<rparr> (PtrString None :: (int64, unit) slicePtr) ''xs''
     = (PtrString (Some [''3'', ''1'', ''2'']),
        \<lparr>values = [''xs'' \<mapsto> [''3'', ''1'', ''2''], ''bs'' \<mapsto> [''true'', ''false'', ''true'']],
         err = Some (ErrNotBoolean ''q'')\<rparr>) \<and>
   Slice ParseInt \<lparr>values = [''xs'' \<mapsto> [''3'', ''1'', ''2''], ''bs'' \<mapsto> [''true'', ''false'', ''true'']],
       err = Some (ErrNotBoolean ''q'')\<rparr> (PtrInt64 (Some [9]) :: (int64, unit) slicePtr) ''xs''
     = (PtrInt64 (Some [3, 1, 2]),
        \<lparr>values = [''xs'' \<mapsto> [''3'', ''1'', ''2''], ''bs'' \<mapsto> [''true'', ''false'', ''true'']],
         err = Some (ErrNotBoolean ''q'')\<rparr>) \<and>
   Slice ParseInt \<lparr>values = [''xs'' \<mapsto> [''3'', ''1'', ''2''], ''bs'' \<mapsto> [''true'', ''false'', ''true'']],
       err = Some (ErrNotBoolean ''q'')\<rparr> (PtrUint64 (Some [9]) :: (int64, unit) slicePtr) ''xs''
     = (PtrUint64 (Some [3, 1, 2]),
        \<lparr>values = [''xs'' \<mapsto> [''3'', ''1'', ''2''], ''bs'' \<mapsto> [''true'', ''false'', ''true'']],
         err = Some (ErrNotBoolean ''q'')\<rparr>) \<and>
   Slice ParseInt \<lparr>values = [''xs'' \<mapsto> [''3'', ''1'', ''2''], ''bs'' \<mapsto> [''true'', ''false'', ''true'']],
       err = Some (ErrNotBoolean ''q'')\<rparr> (PtrFloat64 (Some [9]) :: (int64, unit) slicePtr) ''xs''
     = (PtrFloat64 (Some [3, 1, 2]),
        \<lparr>values = [''xs'' \<mapsto> [''3'', ''1'', ''2''], ''bs'' \<mapsto> [''true'', ''false'', ''true'']],
         err = Some (ErrNotBoolean ''q'')\<rparr>) \<and>
   Slice ParseInt \<lparr>values = [''xs'' \<mapsto> [''3'', ''1'', ''2''], ''bs'' \<mapsto> [''true'', ''false'', ''true'']],
       err = Some (ErrNotBoolean ''q'')\<rparr> (PtrBool None :: (int64, unit) slicePtr) ''bs''
     = (PtrBool (Some [True, False, True]),
        \<lparr>values = [''xs'' \<mapsto> [''3'', ''1'', ''2''], ''bs'' \<mapsto> [''true'', ''false'', ''true'']],
         err = Some (ErrNotBoolean ''q'')\<rparr>)"
proof -
  let ?F = "\<lparr>values = [''xs'' \<mapsto> [''3'', ''1'', ''2''], ''bs'' \<mapsto> [''true'', ''false'', ''true'']],
      err = Some (ErrNotBoolean ''q'')\<rparr>"
  have xs: "values ?F ''xs'' = Some [''3'', ''1'', ''2'']"
    by simp
  have bs: "values ?F ''bs'' = Some [''true'', ''false'', ''true'']"
    by simp
  have i: "\<forall>y\<in>set [''3'', ''1'', ''2'']. snd (ParseInt y) = None"
    by code_simp
  have u: "\<forall>y\<in>set [''3'', ''1'', ''2'']. snd (ParseUint y) = None"
    by code_simp
  have vi: "map (\<lambda>y. fst (ParseInt y)) [''3'', ''1'', ''2''] = [3, 1, 2]"
    by code_simp
  have vu: "map (\<lambda>y. fst (ParseUint y)) [''3'', ''1'', ''2''] = [3, 1, 2]"
    by code_simp
  have b: "\<forall>y\<in>set [''true'', ''false'', ''true'']. y = ''true'' \<or> y = ''false''"
    by simp
  have numbers:
    "Slice ParseInt ?F (PtrString None :: (int64, unit) slicePtr) ''xs''
       = (PtrString (Some [''3'', ''1'', ''2'']), ?F) \<and>
     Slice ParseInt ?F (PtrInt64 (Some [9]) :: (int64, unit) slicePtr) ''xs''
       = (PtrInt64 (Some [3, 1, 2]), ?F) \<and>
     Slice ParseInt ?F (PtrUint64 (Some [9]) :: (int64, unit) slicePtr) ''xs''
       = (PtrUint64 (Some [3, 1, 2]), ?F) \<and>
     Slice ParseInt ?F (PtrFloat64 (Some [9]) :: (int64, unit) slicePtr) ''xs''
       = (PtrFloat64 (Some [3, 1, 2]), ?F)"
    using i u vi vu
      Slice_all_convert [where ?'f = int64 and ?'o = unit, OF xs,
        of ParseInt None "Some [9]" "Some [9]" "Some [9]" None]
    by simp
  have bools:
    "Slice ParseInt ?F (PtrBool None :: (int64, unit) slicePtr) ''bs''
       = (PtrBool (Some [True, False, True]), ?F)"
    using b
      Slice_all_convert [where ?'f = int64 and ?'o = unit, OF bs,
        of ParseInt None None None None None]
    by simp
  from xs numbers bools show ?thesis by simp
qed

section \<open>Slice on an absent key, and on an unsupported destination\<close>

text \<open>
  C5. For a key absent from the values map and each supported destination
  (\<^verbatim>\<open>*[]string\<close>, \<^verbatim>\<open>*[]int64\<close>, \<^verbatim>\<open>*[]uint64\<close>, \<^verbatim>\<open>*[]float64\<close>, \<^verbatim>\<open>*[]bool\<close>),
  \<^verbatim>\<open>Slice\<close> sets the destination to \<^verbatim>\<open>nil\<close> and assigns \<^verbatim>\<open>nil\<close> to the error slot,
  whatever the slot held: \<^verbatim>\<open>Err()\<close> returns \<^verbatim>\<open>nil\<close> after the call, also when an
  earlier getter had recorded an error.
\<close>

theorem Slice_absent_key_clears:
  "values f paramKey = None \<Longrightarrow>
     Slice ParseFloat f (PtrString d0 :: ('f, 'o) slicePtr) paramKey
       = (PtrString None, f\<lparr>err := None\<rparr>) \<and>
     Slice ParseFloat f (PtrInt64 d1 :: ('f, 'o) slicePtr) paramKey
       = (PtrInt64 None, f\<lparr>err := None\<rparr>) \<and>
     Slice ParseFloat f (PtrUint64 d2 :: ('f, 'o) slicePtr) paramKey
       = (PtrUint64 None, f\<lparr>err := None\<rparr>) \<and>
     Slice ParseFloat f (PtrFloat64 d3 :: ('f, 'o) slicePtr) paramKey
       = (PtrFloat64 None, f\<lparr>err := None\<rparr>) \<and>
     Slice ParseFloat f (PtrBool d4 :: ('f, 'o) slicePtr) paramKey
       = (PtrBool None, f\<lparr>err := None\<rparr>) \<and>
     Err (f\<lparr>err := None\<rparr>) = None"
  by (simp add: Slice_def Err_def)

text \<open>
  The Form of the witness holds the error an earlier \<^verbatim>\<open>Int64("n", 0)\<close> recorded.
\<close>

theorem Slice_absent_key_clears_witness:
  "values \<lparr>values = [''n'' \<mapsto> [''abc'']],
      err = Some (NumError ''ParseInt'' ''abc'' ErrSyntax)\<rparr> ''missing'' = None \<and>
   Slice ParseInt \<lparr>values = [''n'' \<mapsto> [''abc'']],
       err = Some (NumError ''ParseInt'' ''abc'' ErrSyntax)\<rparr>
       (PtrString (Some [''old'']) :: (int64, unit) slicePtr) ''missing''
     = (PtrString None, \<lparr>values = [''n'' \<mapsto> [''abc'']], err = None\<rparr>) \<and>
   Slice ParseInt \<lparr>values = [''n'' \<mapsto> [''abc'']],
       err = Some (NumError ''ParseInt'' ''abc'' ErrSyntax)\<rparr>
       (PtrInt64 (Some [1, 2]) :: (int64, unit) slicePtr) ''missing''
     = (PtrInt64 None, \<lparr>values = [''n'' \<mapsto> [''abc'']], err = None\<rparr>) \<and>
   Slice ParseInt \<lparr>values = [''n'' \<mapsto> [''abc'']],
       err = Some (NumError ''ParseInt'' ''abc'' ErrSyntax)\<rparr>
       (PtrUint64 (Some [1, 2]) :: (int64, unit) slicePtr) ''missing''
     = (PtrUint64 None, \<lparr>values = [''n'' \<mapsto> [''abc'']], err = None\<rparr>) \<and>
   Slice ParseInt \<lparr>values = [''n'' \<mapsto> [''abc'']],
       err = Some (NumError ''ParseInt'' ''abc'' ErrSyntax)\<rparr>
       (PtrFloat64 (Some [1, 2]) :: (int64, unit) slicePtr) ''missing''
     = (PtrFloat64 None, \<lparr>values = [''n'' \<mapsto> [''abc'']], err = None\<rparr>) \<and>
   Slice ParseInt \<lparr>values = [''n'' \<mapsto> [''abc'']],
       err = Some (NumError ''ParseInt'' ''abc'' ErrSyntax)\<rparr>
       (PtrBool (Some [True]) :: (int64, unit) slicePtr) ''missing''
     = (PtrBool None, \<lparr>values = [''n'' \<mapsto> [''abc'']], err = None\<rparr>) \<and>
   Err \<lparr>values = [''n'' \<mapsto> [''abc'']], err = None\<rparr> = None"
proof -
  have h: "values \<lparr>values = [''n'' \<mapsto> [''abc'']],
      err = Some (NumError ''ParseInt'' ''abc'' ErrSyntax)\<rparr> ''missing'' = None"
    by simp
  show ?thesis
    using h
      Slice_absent_key_clears [where ?'f = int64 and ?'o = unit, OF h,
        of ParseInt "Some [''old'']" "Some [1, 2]" "Some [1, 2]" "Some [1, 2]" "Some [True]"]
    by simp
qed

text \<open>
  C6, as stated: for a destination of an unsupported type \<^verbatim>\<open>Slice\<close> records the
  type-support error and the destination ends cleared (it is left untouched beyond
  clearing).
  The code does not clear it. The default case of \<^verbatim>\<open>clearSlice\<close> returns the error and
  assigns nothing: a destination \<^verbatim>\<open>*[]int\<close> holding \<^verbatim>\<open>[1, 2]\<close> still holds
  \<^verbatim>\<open>[1, 2]\<close> after the call, with the key present (\<^verbatim>\<open>k\<close>) and with the key absent
  (\<^verbatim>\<open>missing\<close>), and that is not the cleared slice.
\<close>

theorem Slice_unsupported_not_cleared:
  "Slice ParseInt \<lparr>values = [''k'' \<mapsto> [''1'']], err = None\<rparr>
       (PtrOther ''*[]int'' [1, 2 :: int] :: (int64, int list) slicePtr) ''k''
     = (PtrOther ''*[]int'' [1, 2],
        \<lparr>values = [''k'' \<mapsto> [''1'']], err = Some (ErrTypeNotSupported ''*[]int'')\<rparr>) \<and>
   Slice ParseInt \<lparr>values = [''k'' \<mapsto> [''1'']], err = None\<rparr>
       (PtrOther ''*[]int'' [1, 2 :: int] :: (int64, int list) slicePtr) ''missing''
     = (PtrOther ''*[]int'' [1, 2],
        \<lparr>values = [''k'' \<mapsto> [''1'']], err = Some (ErrTypeNotSupported ''*[]int'')\<rparr>) \<and>
   fst (Slice ParseInt \<lparr>values = [''k'' \<mapsto> [''1'']], err = None\<rparr>
       (PtrOther ''*[]int'' [1, 2 :: int] :: (int64, int list) slicePtr) ''k'')
     \<noteq> PtrOther ''*[]int'' [] \<and>
   fst (Slice ParseInt \<lparr>values = [''k'' \<mapsto> [''1'']], err = None\<rparr>
       (PtrOther ''*[]int'' [1, 2 :: int] :: (int64, int list) slicePtr) ''missing'')
     \<noteq> PtrOther ''*[]int'' []"
  by (simp add: Slice_def)

text \<open>
  C6, amended. For a destination of any dynamic type other than the five supported
  pointer types, \<^verbatim>\<open>Slice\<close> records the type-support error in the error slot and leaves
  the destination exactly as it was (it is not cleared), whether the key is present or
  absent: no assumption is made on the values map.
\<close>

theorem Slice_unsupported_type:
  "Slice ParseFloat f (PtrOther tn v :: ('f, 'o) slicePtr) paramKey
     = (PtrOther tn v, f\<lparr>err := Some (ErrTypeNotSupported tn)\<rparr>)"
  by (simp add: Slice_def split: option.splits)

section \<open>Bool and its two tokens\<close>

text \<open>
  C7. For a present key with first value \<open>v\<close>: \<^verbatim>\<open>Bool\<close> returns \<^verbatim>\<open>true\<close> when \<open>v\<close>
  is exactly \<^verbatim>\<open>"true"\<close> and \<^verbatim>\<open>false\<close> when it is exactly \<^verbatim>\<open>"false"\<close>, the Form being
  unchanged in both cases; for every other \<open>v\<close> it sets the error slot (and returns
  \<^verbatim>\<open>false\<close>).
\<close>

theorem Bool_literal_tokens:
  "values f paramKey = Some (v # vs) \<Longrightarrow>
     Bool f paramKey d =
       Inr (if v = ''true'' then (True, f)
            else if v = ''false'' then (False, f)
            else (False, f\<lparr>err := Some (ErrNotBoolean paramKey)\<rparr>))"
  by (simp add: Bool_def index_Cons_0)

theorem Bool_literal_tokens_witness:
  "values \<lparr>values = [''t'' \<mapsto> [''true''], ''f'' \<mapsto> [''false'', ''true''], ''m'' \<mapsto> [''True'']],
      err = None\<rparr> ''t'' = Some [''true''] \<and>
   Bool \<lparr>values = [''t'' \<mapsto> [''true''], ''f'' \<mapsto> [''false'', ''true''], ''m'' \<mapsto> [''True'']],
      err = None\<rparr> ''t'' False
     = Inr (True,
         \<lparr>values = [''t'' \<mapsto> [''true''], ''f'' \<mapsto> [''false'', ''true''], ''m'' \<mapsto> [''True'']],
          err = None\<rparr>) \<and>
   Bool \<lparr>values = [''t'' \<mapsto> [''true''], ''f'' \<mapsto> [''false'', ''true''], ''m'' \<mapsto> [''True'']],
      err = None\<rparr> ''f'' True
     = Inr (False,
         \<lparr>values = [''t'' \<mapsto> [''true''], ''f'' \<mapsto> [''false'', ''true''], ''m'' \<mapsto> [''True'']],
          err = None\<rparr>) \<and>
   Bool \<lparr>values = [''t'' \<mapsto> [''true''], ''f'' \<mapsto> [''false'', ''true''], ''m'' \<mapsto> [''True'']],
      err = None\<rparr> ''m'' False
     = Inr (False,
         \<lparr>values = [''t'' \<mapsto> [''true''], ''f'' \<mapsto> [''false'', ''true''], ''m'' \<mapsto> [''True'']],
          err = Some (ErrNotBoolean ''m'')\<rparr>)"
proof -
  let ?F = "\<lparr>values = [''t'' \<mapsto> [''true''], ''f'' \<mapsto> [''false'', ''true''], ''m'' \<mapsto> [''True'']],
      err = None\<rparr>"
  have t: "values ?F ''t'' = Some [''true'']"
    by simp
  have f: "values ?F ''f'' = Some [''false'', ''true'']"
    by simp
  have m: "values ?F ''m'' = Some [''True'']"
    by simp
  show ?thesis
    using t Bool_literal_tokens [OF t, of False] Bool_literal_tokens [OF f, of True]
      Bool_literal_tokens [OF m, of False]
    by simp
qed

section \<open>Status codes\<close>

text \<open>
  C8. Each of the six status constants has its documented numeric value, and the
  \<^verbatim>\<open>const\<close> block declares these six and no other: its values, in order, are 200, 301,
  400, 401, 403 and 500.
\<close>

theorem StatusCode_values:
  "StatusOK = 200 \<and> StatusMovedPermanently = 301 \<and> StatusBadRequest = 400 \<and>
   StatusUnauthorized = 401 \<and> StatusForbidden = 403 \<and> StatusInternalServerError = 500 \<and>
   map snd StatusCode_consts = [200, 301, 400, 401, 403, 500]"
  by (simp add: StatusOK_def StatusMovedPermanently_def StatusBadRequest_def
      StatusUnauthorized_def StatusForbidden_def StatusInternalServerError_def
      StatusCode_consts_def)

section \<open>The error slot over a sequence of calls\<close>

text \<open>
  A call that returns either keeps every content of the error slot, or stores one and the
  same value whatever the slot held before; it never changes the values map.
\<close>

lemma scalar_overwrites_or_keeps:
  "exec pf (CallInt64 k d) \<lparr>values = vs, err = e\<rparr> = Inr g \<Longrightarrow>
     (\<forall>e0. exec pf (CallInt64 k d) \<lparr>values = vs, err = e0\<rparr> = Inr \<lparr>values = vs, err = e0\<rparr>) \<or>
     (\<forall>e0. exec pf (CallInt64 k d) \<lparr>values = vs, err = e0\<rparr> = Inr \<lparr>values = vs, err = err g\<rparr>)"
  "exec pf (CallUint64 k d') \<lparr>values = vs, err = e\<rparr> = Inr g \<Longrightarrow>
     (\<forall>e0. exec pf (CallUint64 k d') \<lparr>values = vs, err = e0\<rparr> = Inr \<lparr>values = vs, err = e0\<rparr>) \<or>
     (\<forall>e0. exec pf (CallUint64 k d') \<lparr>values = vs, err = e0\<rparr> = Inr \<lparr>values = vs, err = err g\<rparr>)"
  "exec pf (CallString k ds) \<lparr>values = vs, err = e\<rparr> = Inr g \<Longrightarrow>
     (\<forall>e0. exec pf (CallString k ds) \<lparr>values = vs, err = e0\<rparr> = Inr \<lparr>values = vs, err = e0\<rparr>) \<or>
     (\<forall>e0. exec pf (CallString k ds) \<lparr>values = vs, err = e0\<rparr> = Inr \<lparr>values = vs, err = err g\<rparr>)"
  "exec pf (CallFloat64 k df) \<lparr>values = vs, err = e\<rparr> = Inr g \<Longrightarrow>
     (\<forall>e0. exec pf (CallFloat64 k df) \<lparr>values = vs, err = e0\<rparr> = Inr \<lparr>values = vs, err = e0\<rparr>) \<or>
     (\<forall>e0. exec pf (CallFloat64 k df) \<lparr>values = vs, err = e0\<rparr> = Inr \<lparr>values = vs, err = err g\<rparr>)"
  "exec pf (CallBool k db) \<lparr>values = vs, err = e\<rparr> = Inr g \<Longrightarrow>
     (\<forall>e0. exec pf (CallBool k db) \<lparr>values = vs, err = e0\<rparr> = Inr \<lparr>values = vs, err = e0\<rparr>) \<or>
     (\<forall>e0. exec pf (CallBool k db) \<lparr>values = vs, err = e0\<rparr> = Inr \<lparr>values = vs, err = err g\<rparr>)"
  by (auto simp: Int64_def Uint64_def String_def Float64_def Bool_def
      split: option.splits sum.splits prod.splits if_splits)

lemma Slice_overwrites_or_keeps:
  "exec pf (CallSlice p k) \<lparr>values = vs, err = e\<rparr> = Inr g \<Longrightarrow>
     (\<forall>e0. exec pf (CallSlice p k) \<lparr>values = vs, err = e0\<rparr> = Inr \<lparr>values = vs, err = e0\<rparr>) \<or>
     (\<forall>e0. exec pf (CallSlice p k) \<lparr>values = vs, err = e0\<rparr> = Inr \<lparr>values = vs, err = err g\<rparr>)"
  by (cases p) (auto simp: Slice_def split: option.splits sum.splits)

lemma exec_overwrites_or_keeps:
  "exec pf c \<lparr>values = vs, err = e\<rparr> = Inr g \<Longrightarrow>
     (\<forall>e0. exec pf c \<lparr>values = vs, err = e0\<rparr> = Inr \<lparr>values = vs, err = e0\<rparr>) \<or>
     (\<forall>e0. exec pf c \<lparr>values = vs, err = e0\<rparr> = Inr \<lparr>values = vs, err = err g\<rparr>)"
  by (cases c) (simp_all only: scalar_overwrites_or_keeps Slice_overwrites_or_keeps)

lemma exec_keeps_values:
  assumes "exec pf c \<lparr>values = vs, err = e\<rparr> = Inr g"
  shows "g = \<lparr>values = vs, err = err g\<rparr>"
  using exec_overwrites_or_keeps [OF assms] assms by auto

text \<open>
  Where no key is bound to an empty list no call panics: every sequence of calls returns.
\<close>

lemma exec_returns:
  assumes "\<forall>vals\<in>ran vs. vals \<noteq> []"
  shows "\<exists>e'. exec pf c \<lparr>values = vs, err = e\<rparr> = Inr \<lparr>values = vs, err = e'\<rparr>"
proof -
  have ne: "vs k \<noteq> Some []" for k
    using assms by (auto simp: ran_def)
  show ?thesis
  proof (cases c)
    case (CallSlice p k)
    then show ?thesis
      by (cases p) (auto simp: Slice_def split: option.splits sum.splits)
  qed (auto simp: Int64_def Uint64_def String_def Float64_def Bool_def index_def ne
      split: option.splits prod.splits)
qed

lemma run_returns:
  assumes "\<forall>vals\<in>ran vs. vals \<noteq> []"
  shows "\<exists>e'. run pf cs \<lparr>values = vs, err = e\<rparr> = Inr \<lparr>values = vs, err = e'\<rparr>"
proof (induction cs arbitrary: e)
  case Nil
  show ?case by simp
next
  case (Cons c cs)
  from exec_returns [OF assms] obtain e1
    where "exec pf c \<lparr>values = vs, err = e\<rparr> = Inr \<lparr>values = vs, err = e1\<rparr>"
    by blast
  with Cons.IH [of e1] show ?case by simp
qed

text \<open>
  C9. Last error wins. After a sequence \<open>cs\<close> of getter calls that all returned, with
  \<open>f'\<close> the Form at the end: either the sequence keeps every content of the error slot
  (no call wrote to it), or it splits at a most recent writing call \<open>c\<close>, that is,
  \<open>c\<close> stores the value \<^verbatim>\<open>Err()\<close> returns at the end whatever the slot held when
  \<open>c\<close> was called (the write overwrites, nothing of the earlier content is kept or
  combined), and the calls after \<open>c\<close> keep every content of the slot. The values map
  is never changed.
\<close>

theorem last_error_wins:
  "run pf cs \<lparr>values = vs, err = e\<rparr> = Inr f' \<Longrightarrow>
     values f' = vs \<and>
     ((\<forall>e0. run pf cs \<lparr>values = vs, err = e0\<rparr> = Inr \<lparr>values = vs, err = e0\<rparr>) \<or>
      (\<exists>pre c post. cs = pre @ c # post \<and>
         (\<forall>e0. exec pf c \<lparr>values = vs, err = e0\<rparr> = Inr \<lparr>values = vs, err = Err f'\<rparr>) \<and>
         (\<forall>e0. run pf post \<lparr>values = vs, err = e0\<rparr> = Inr \<lparr>values = vs, err = e0\<rparr>)))"
proof (induction cs arbitrary: e)
  case Nil
  then show ?case by auto
next
  case (Cons c cs)
  from Cons.prems obtain g where g: "exec pf c \<lparr>values = vs, err = e\<rparr> = Inr g"
    and rest: "run pf cs g = Inr f'"
    by (auto split: sum.splits)
  from exec_keeps_values [OF g] have g_eq: "g = \<lparr>values = vs, err = err g\<rparr>" .
  with rest have rest': "run pf cs \<lparr>values = vs, err = err g\<rparr> = Inr f'" by simp
  from Cons.IH [OF rest'] have vals: "values f' = vs"
    and tail: "(\<forall>e0. run pf cs \<lparr>values = vs, err = e0\<rparr> = Inr \<lparr>values = vs, err = e0\<rparr>) \<or>
      (\<exists>pre c' post. cs = pre @ c' # post \<and>
         (\<forall>e0. exec pf c' \<lparr>values = vs, err = e0\<rparr> = Inr \<lparr>values = vs, err = Err f'\<rparr>) \<and>
         (\<forall>e0. run pf post \<lparr>values = vs, err = e0\<rparr> = Inr \<lparr>values = vs, err = e0\<rparr>))"
    by blast+
  from tail show ?case
  proof
    assume keeps: "\<forall>e0. run pf cs \<lparr>values = vs, err = e0\<rparr> = Inr \<lparr>values = vs, err = e0\<rparr>"
    with rest' have f'_eq: "f' = \<lparr>values = vs, err = err g\<rparr>" by simp
    from exec_overwrites_or_keeps [OF g] show ?thesis
    proof
      assume "\<forall>e0. exec pf c \<lparr>values = vs, err = e0\<rparr> = Inr \<lparr>values = vs, err = e0\<rparr>"
      with keeps
      have "\<forall>e0. run pf (c # cs) \<lparr>values = vs, err = e0\<rparr> = Inr \<lparr>values = vs, err = e0\<rparr>"
        by simp
      with vals show ?thesis by blast
    next
      assume "\<forall>e0. exec pf c \<lparr>values = vs, err = e0\<rparr> = Inr \<lparr>values = vs, err = err g\<rparr>"
      with f'_eq
      have "\<forall>e0. exec pf c \<lparr>values = vs, err = e0\<rparr> = Inr \<lparr>values = vs, err = Err f'\<rparr>"
        by (simp add: Err_def)
      with keeps have "\<exists>pre c' post. c # cs = pre @ c' # post \<and>
         (\<forall>e0. exec pf c' \<lparr>values = vs, err = e0\<rparr> = Inr \<lparr>values = vs, err = Err f'\<rparr>) \<and>
         (\<forall>e0. run pf post \<lparr>values = vs, err = e0\<rparr> = Inr \<lparr>values = vs, err = e0\<rparr>)"
        by (intro exI [of _ "[]"] exI [of _ c] exI [of _ cs]) simp
      with vals show ?thesis by blast
    qed
  next
    assume "\<exists>pre c' post. cs = pre @ c' # post \<and>
         (\<forall>e0. exec pf c' \<lparr>values = vs, err = e0\<rparr> = Inr \<lparr>values = vs, err = Err f'\<rparr>) \<and>
         (\<forall>e0. run pf post \<lparr>values = vs, err = e0\<rparr> = Inr \<lparr>values = vs, err = e0\<rparr>)"
    then obtain pre c' post where split: "cs = pre @ c' # post"
      and wr: "\<forall>e0. exec pf c' \<lparr>values = vs, err = e0\<rparr> = Inr \<lparr>values = vs, err = Err f'\<rparr>"
      and keeps: "\<forall>e0. run pf post \<lparr>values = vs, err = e0\<rparr> = Inr \<lparr>values = vs, err = e0\<rparr>"
      by blast
    from split have "c # cs = (c # pre) @ c' # post" by simp
    with wr keeps vals show ?thesis by blast
  qed
qed

text \<open>
  Four calls on one Form: \<^verbatim>\<open>Int64("n", 7)\<close> records a syntax error, \<^verbatim>\<open>Bool("b", true)\<close>
  replaces it by its own, \<^verbatim>\<open>String("s", "x")\<close> and \<^verbatim>\<open>Slice(&strs, "s")\<close> write
  nothing: at the end the slot holds the error of \<^verbatim>\<open>Bool\<close> alone.
\<close>

theorem last_error_wins_witness:
  "run ParseInt
     [CallInt64 ''n'' 7, CallBool ''b'' True, CallString ''s'' ''x'',
      CallSlice (PtrString None :: (int64, unit) slicePtr) ''s'']
     \<lparr>values = [''n'' \<mapsto> [''abc''], ''b'' \<mapsto> [''maybe''], ''s'' \<mapsto> [''hello'']], err = None\<rparr>
     = Inr \<lparr>values = [''n'' \<mapsto> [''abc''], ''b'' \<mapsto> [''maybe''], ''s'' \<mapsto> [''hello'']],
            err = Some (ErrNotBoolean ''b'')\<rparr> \<and>
   Err \<lparr>values = [''n'' \<mapsto> [''abc''], ''b'' \<mapsto> [''maybe''], ''s'' \<mapsto> [''hello'']],
        err = Some (ErrNotBoolean ''b'')\<rparr> = Some (ErrNotBoolean ''b'') \<and>
   (\<exists>pre c post.
      [CallInt64 ''n'' 7, CallBool ''b'' True, CallString ''s'' ''x'',
       CallSlice (PtrString None :: (int64, unit) slicePtr) ''s''] = pre @ c # post \<and>
      (\<forall>e0. exec ParseInt c
          \<lparr>values = [''n'' \<mapsto> [''abc''], ''b'' \<mapsto> [''maybe''], ''s'' \<mapsto> [''hello'']], err = e0\<rparr>
        = Inr \<lparr>values = [''n'' \<mapsto> [''abc''], ''b'' \<mapsto> [''maybe''], ''s'' \<mapsto> [''hello'']],
               err = Some (ErrNotBoolean ''b'')\<rparr>) \<and>
      (\<forall>e0. run ParseInt post
          \<lparr>values = [''n'' \<mapsto> [''abc''], ''b'' \<mapsto> [''maybe''], ''s'' \<mapsto> [''hello'']], err = e0\<rparr>
        = Inr \<lparr>values = [''n'' \<mapsto> [''abc''], ''b'' \<mapsto> [''maybe''], ''s'' \<mapsto> [''hello'']],
               err = e0\<rparr>))"
proof -
  let ?vs = "[''n'' \<mapsto> [''abc''], ''b'' \<mapsto> [''maybe''], ''s'' \<mapsto> [''hello'']]"
  let ?cs = "[CallInt64 ''n'' 7, CallBool ''b'' True, CallString ''s'' ''x'',
      CallSlice (PtrString None :: (int64, unit) slicePtr) ''s'']"
  have p: "ParseInt ''abc'' = (0, Some (NumError ''ParseInt'' ''abc'' ErrSyntax))"
    by code_simp
  have h: "run ParseInt ?cs \<lparr>values = ?vs, err = None\<rparr>
      = Inr \<lparr>values = ?vs, err = Some (ErrNotBoolean ''b'')\<rparr>"
    by (simp add: p Int64_def Bool_def String_def Slice_def index_def)
  have not_kept: "\<not> (\<forall>e0. run ParseInt ?cs \<lparr>values = ?vs, err = e0\<rparr>
      = Inr \<lparr>values = ?vs, err = e0\<rparr>)"
  proof
    assume "\<forall>e0. run ParseInt ?cs \<lparr>values = ?vs, err = e0\<rparr>
      = Inr \<lparr>values = ?vs, err = e0\<rparr>"
    then have "run ParseInt ?cs \<lparr>values = ?vs, err = None\<rparr>
      = Inr \<lparr>values = ?vs, err = None\<rparr>"
      by (rule spec)
    from trans [OF h [symmetric] this] show False by simp
  qed
  have slot: "Err \<lparr>values = ?vs, err = Some (ErrNotBoolean ''b'')\<rparr> = Some (ErrNotBoolean ''b'')"
    by (simp add: Err_def)
  from last_error_wins [OF h] not_kept
  have "\<exists>pre c post. ?cs = pre @ c # post \<and>
      (\<forall>e0. exec ParseInt c \<lparr>values = ?vs, err = e0\<rparr>
        = Inr \<lparr>values = ?vs, err = Err \<lparr>values = ?vs, err = Some (ErrNotBoolean ''b'')\<rparr>\<rparr>) \<and>
      (\<forall>e0. run ParseInt post \<lparr>values = ?vs, err = e0\<rparr> = Inr \<lparr>values = ?vs, err = e0\<rparr>)"
    by blast
  then have "\<exists>pre c post. ?cs = pre @ c # post \<and>
      (\<forall>e0. exec ParseInt c \<lparr>values = ?vs, err = e0\<rparr>
        = Inr \<lparr>values = ?vs, err = Some (ErrNotBoolean ''b'')\<rparr>) \<and>
      (\<forall>e0. run ParseInt post \<lparr>values = ?vs, err = e0\<rparr> = Inr \<lparr>values = ?vs, err = e0\<rparr>)"
    unfolding slot .
  with h slot show ?thesis by blast
qed

section \<open>String\<close>

text \<open>
  What \<^verbatim>\<open>String\<close> does on every input: the default on an absent key, the first value
  verbatim on a key bound to a non-empty list, a panic on a key bound to an empty list.
  In no case is anything assigned to the error slot.
\<close>

lemma String_outcomes:
  "String f paramKey d =
     (case values f paramKey of
        None \<Rightarrow> Inr (d, f)
      | Some [] \<Rightarrow> Inl IndexOutOfRange
      | Some (v # vs) \<Rightarrow> Inr (v, f))"
  by (simp add: String_def index_def split: option.splits list.splits)

lemma String_keeps_Form:
  "String f paramKey d = Inr (r, f') \<Longrightarrow> f' = f"
  by (auto simp: String_outcomes split: option.splits list.splits)

lemma example_String_verbatim:
  "String \<lparr>values = [''s'' \<mapsto> [''-12x y'', ''second'']], err = None\<rparr> ''s'' ''d''
     = Inr (''-12x y'', \<lparr>values = [''s'' \<mapsto> [''-12x y'', ''second'']], err = None\<rparr>)"
  by (simp add: String_outcomes)


end
